theory Spec2Isabelle
  imports Main "HOL-Library.Sublist"
begin

section \<open>JavaScript strings\<close>

text \<open>
  A JavaScript string is a sequence of UTF-16 code units, and \<open>length\<close>, \<open>slice\<close>,
  \<open>trim\<close> and \<open>endsWith\<close> all work on code units. A \<^typ>\<open>char\<close> stands for one code
  unit; the code units modelled are those below 256 (the Latin-1 block), under their
  Unicode reading. JavaScript numbers that hold lengths and limits are \<^typ>\<open>int\<close>.
\<close>

definition len :: "string \<Rightarrow> int" where
  "len s = int (length s)"

text \<open>
  \<open>s.slice(0, e)\<close>: a negative end counts from the end of the string, and the
  result is clamped to the string.
\<close>

definition slice0 :: "string \<Rightarrow> int \<Rightarrow> string" where
  "slice0 s e = take (nat (if e < 0 then max (len s + e) 0 else min e (len s))) s"

text \<open>
  The code units that \<open>trim\<close>, \<open>trimStart\<close> and \<open>trimEnd\<close> strip: ECMAScript's
  WhiteSpace and LineTerminator. Below 256 these are TAB, LF, VT, FF, CR, SPACE and
  NO-BREAK SPACE.
\<close>

definition isWhiteSpace :: "char \<Rightarrow> bool" where
  "isWhiteSpace c = (of_char c \<in> {9::nat, 10, 11, 12, 13, 32, 160})"

definition trimStart :: "string \<Rightarrow> string" where
  "trimStart s = dropWhile isWhiteSpace s"

definition trimEnd :: "string \<Rightarrow> string" where
  "trimEnd s = rev (dropWhile isWhiteSpace (rev s))"

definition trim :: "string \<Rightarrow> string" where
  "trim s = trimEnd (trimStart s)"

text \<open>
  \<open>toLowerCase\<close> maps each code unit to its Unicode lowercase: A to Z, and in the
  Latin-1 block the letters U+00C0 to U+00DE except the multiplication sign U+00D7.
\<close>

definition lowerChar :: "char \<Rightarrow> char" where
  "lowerChar c =
     (let n = (of_char c :: nat)
      in if (65 \<le> n \<and> n \<le> 90) \<or> (192 \<le> n \<and> n \<le> 222 \<and> n \<noteq> 215)
         then char_of (n + 32) else c)"

definition toLowerCase :: "string \<Rightarrow> string" where
  "toLowerCase s = map lowerChar s"

definition endsWith :: "string \<Rightarrow> string \<Rightarrow> bool" where
  "endsWith s suf = suffix suf s"

definition includes_str :: "string \<Rightarrow> string \<Rightarrow> bool" where
  "includes_str s sub = sublist sub s"

text \<open>The decimal rendering of a non-negative number inside a template literal.\<close>

fun digits :: "nat \<Rightarrow> string" where
  "digits n = (if n < 10 then [char_of (48 + n)] else digits (n div 10) @ [char_of (48 + n mod 10)])"

declare digits.simps [simp del]

definition numberToString :: "int \<Rightarrow> string" where
  "numberToString i = (if i < 0 then CHR ''-'' # digits (nat (- i)) else digits (nat i))"

section \<open>lib/sanitize.ts\<close>

record EmbedParams =
  title :: "string option"
  desc :: "string option"
  footer :: "string option"
  image :: "string option"

record Limits =
  title :: int
  description :: int
  footer :: int

definition LIMITS :: Limits where
  "LIMITS = \<lparr> title = 200, description = 1000, footer = 200 \<rparr>"

record ValidationResult =
  valid :: bool
  error :: "string option"

definition validateTitle :: "string \<Rightarrow> ValidationResult" where
  "validateTitle t =
     (if t = [] \<or> len (trim t) = 0
      then \<lparr> valid = False, error = Some ''Title is required'' \<rparr>
      else if len t > Limits.title LIMITS
      then \<lparr> valid = False,
             error = Some (''Title must be '' @ numberToString (Limits.title LIMITS) @ '' characters or less'') \<rparr>
      else \<lparr> valid = True, error = None \<rparr>)"

definition validateDescription :: "string \<Rightarrow> ValidationResult" where
  "validateDescription d =
     (if d = [] \<or> len (trim d) = 0
      then \<lparr> valid = False, error = Some ''Description is required'' \<rparr>
      else if len d > description LIMITS
      then \<lparr> valid = False,
             error = Some (''Description must be '' @ numberToString (description LIMITS) @ '' characters or less'') \<rparr>
      else \<lparr> valid = True, error = None \<rparr>)"

definition validateFooter :: "string \<Rightarrow> ValidationResult" where
  "validateFooter f =
     (if f \<noteq> [] \<and> len f > Limits.footer LIMITS
      then \<lparr> valid = False,
             error = Some (''Footer must be '' @ numberToString (Limits.footer LIMITS) @ '' characters or less'') \<rparr>
      else \<lparr> valid = True, error = None \<rparr>)"

text \<open>
  \<open>new URL(imageUrl)\<close> is the platform's URL parser. It is a parameter \<open>newURL\<close> of
  the model: \<open>None\<close> is the TypeError it throws on a string that is not an absolute URL,
  and \<open>Some url\<close> carries the two properties the code reads.
\<close>

record URL =
  protocol :: string
  hostname :: string

definition validateImageUrl :: "(string \<Rightarrow> URL option) \<Rightarrow> string \<Rightarrow> ValidationResult" where
  "validateImageUrl newURL imageUrl =
     (if imageUrl = [] \<or> len (trim imageUrl) = 0
      then \<lparr> valid = True, error = None \<rparr>
      else case newURL imageUrl of
        None \<Rightarrow> \<lparr> valid = False, error = Some ''Invalid URL format'' \<rparr>
      | Some url \<Rightarrow>
          if protocol url \<noteq> ''https:''
          then \<lparr> valid = False, error = Some ''Image URL must be HTTPS only'' \<rparr>
          else if \<not> includes_str (hostname url) ''localhost''
          then \<lparr> valid = True, error = None \<rparr>
          else \<lparr> valid = True, error = None \<rparr>)"

subsection \<open>URLSearchParams\<close>

text \<open>
  A URLSearchParams object is its list of name-value pairs. \<open>get\<close> returns the value of
  the first pair with the name, or null; \<open>set\<close> overwrites the first pair with the name
  and removes the others, or appends a new pair.
\<close>

type_synonym URLSearchParams = "(string \<times> string) list"

fun sp_get :: "URLSearchParams \<Rightarrow> string \<Rightarrow> string option" where
  "sp_get [] name = None"
| "sp_get ((k, v) # ps) name = (if k = name then Some v else sp_get ps name)"

fun sp_set :: "URLSearchParams \<Rightarrow> string \<Rightarrow> string \<Rightarrow> URLSearchParams" where
  "sp_set [] name val = [(name, val)]"
| "sp_set ((k, v) # ps) name val =
     (if k = name then (name, val) # filter (\<lambda>p. fst p \<noteq> name) ps
      else (k, v) # sp_set ps name val)"

text \<open>
  \<open>toString\<close> is the application/x-www-form-urlencoded serializer of the URL Standard:
  names and values are encoded as UTF-8, a space becomes \<open>+\<close>, the bytes of ASCII
  letters and digits and of \<open>*\<close>, \<open>-\<close>, \<open>.\<close> and \<open>_\<close> stand for themselves, every
  other byte is percent-encoded, and the pairs are joined by \<open>&\<close>.
\<close>

definition utf8 :: "char \<Rightarrow> nat list" where
  "utf8 c = (let n = (of_char c :: nat) in if n < 128 then [n] else [192 + n div 64, 128 + n mod 64])"

definition hexDigit :: "nat \<Rightarrow> char" where
  "hexDigit d = ''0123456789ABCDEF'' ! (d mod 16)"

definition urlencodedByte :: "nat \<Rightarrow> string" where
  "urlencodedByte b =
     (if b = 32 then ''+''
      else if b = 42 \<or> b = 45 \<or> b = 46 \<or> b = 95 \<or> (48 \<le> b \<and> b \<le> 57)
              \<or> (65 \<le> b \<and> b \<le> 90) \<or> (97 \<le> b \<and> b \<le> 122)
      then [char_of b]
      else [CHR ''%'', hexDigit (b div 16), hexDigit (b mod 16)])"

definition urlencoded :: "string \<Rightarrow> string" where
  "urlencoded s = concat (map urlencodedByte (concat (map utf8 s)))"

fun sp_toString :: "URLSearchParams \<Rightarrow> string" where
  "sp_toString [] = []"
| "sp_toString [(k, v)] = urlencoded k @ ''='' @ urlencoded v"
| "sp_toString ((k, v) # ps) = urlencoded k @ ''='' @ urlencoded v @ ''&'' @ sp_toString ps"

subsection \<open>buildShareableUrl and getEmbedParams\<close>

text \<open>
  A field of \<open>Partial<EmbedParams>\<close> is absent (\<open>None\<close>) or a string; it is falsy when
  absent or empty. \<open>setIfTruthy\<close> is one \<open>if (params.x) searchParams.set("x", params.x)\<close>.
\<close>

definition truthy :: "string option \<Rightarrow> bool" where
  "truthy p = (case p of None \<Rightarrow> False | Some s \<Rightarrow> s \<noteq> [])"

definition setIfTruthy :: "string \<Rightarrow> string option \<Rightarrow> URLSearchParams \<Rightarrow> URLSearchParams" where
  "setIfTruthy name p sp = (case p of None \<Rightarrow> sp | Some s \<Rightarrow> if s \<noteq> [] then sp_set sp name s else sp)"

definition buildSearchParams :: "EmbedParams \<Rightarrow> URLSearchParams" where
  "buildSearchParams params =
     setIfTruthy ''image'' (image params)
       (setIfTruthy ''footer'' (EmbedParams.footer params)
         (setIfTruthy ''desc'' (desc params)
           (setIfTruthy ''title'' (EmbedParams.title params) [])))"

definition buildShareableUrl :: "EmbedParams \<Rightarrow> string" where
  "buildShareableUrl params = ''/embed?'' @ sp_toString (buildSearchParams params)"

text \<open>\<open>x || ""\<close> and \<open>x || undefined\<close> on a value that is null or a string.\<close>

definition orEmpty :: "string option \<Rightarrow> string" where
  "orEmpty p = (case p of None \<Rightarrow> [] | Some s \<Rightarrow> s)"

definition orUndefined :: "string option \<Rightarrow> string option" where
  "orUndefined p = (case p of None \<Rightarrow> None | Some s \<Rightarrow> if s \<noteq> [] then Some s else None)"

definition getEmbedParams :: "URLSearchParams \<Rightarrow> EmbedParams" where
  "getEmbedParams searchParams =
     \<lparr> EmbedParams.title = Some (orEmpty (sp_get searchParams ''title'')),
       desc = Some (orEmpty (sp_get searchParams ''desc'')),
       EmbedParams.footer = Some (orEmpty (sp_get searchParams ''footer'')),
       image = orUndefined (sp_get searchParams ''image'') \<rparr>"

subsection \<open>escapeHtml\<close>

text \<open>
  Modelled from the spec: \<open>he.escape\<close>, the HTML-entity escaper of the package \<open>he\<close>
  that \<open>escapeHtml\<close> calls; the package is not part of the source tree. It replaces
  each of the six characters \<open>"\<close>, \<open>&\<close>, \<open>'\<close>, \<open><\<close>, \<open>>\<close> and the backtick by its
  entity and leaves every other character, the asterisk among them, as it is.
\<close>

definition escapeChar :: "char \<Rightarrow> string" where
  "escapeChar c =
     (if c = CHR 0x22 then ''&quot;''
      else if c = CHR ''&'' then ''&amp;''
      else if c = CHR 0x27 then ''&#x27;''
      else if c = CHR ''<'' then ''&lt;''
      else if c = CHR ''>'' then ''&gt;''
      else if c = CHR 0x60 then ''&#x60;''
      else [c])"

definition he_escape :: "string \<Rightarrow> string" where
  "he_escape text = concat (map escapeChar text)"

definition escapeHtml :: "string \<Rightarrow> string" where
  "escapeHtml text = he_escape text"

section \<open>The footer-merge route: GET\<close>

text \<open>
  The locals of \<open>GET\<close>, each as a function of the values it is computed from. The four
  raw parameters are the fields of \<open>getEmbedParams\<close>, defaulted to the empty string and
  trimmed.
\<close>

definition rawParam :: "string option \<Rightarrow> string" where
  "rawParam p = trim (orEmpty p)"

definition fallbackTitle :: string where
  "fallbackTitle = ''Untitled Card''"

definition fallbackDescription :: string where
  "fallbackDescription = ''A shareable embed card created with Dynamic Embed Generator''"

definition title_of :: "string \<Rightarrow> string" where
  "title_of titleRaw =
     (if valid (validateTitle titleRaw) then slice0 titleRaw (Limits.title LIMITS) else fallbackTitle)"

definition footerAllowed_of :: "string \<Rightarrow> string" where
  "footerAllowed_of footerRaw =
     (if valid (validateFooter footerRaw) then slice0 footerRaw (Limits.footer LIMITS) else [])"

definition footerMarkdown_of :: "string \<Rightarrow> string" where
  "footerMarkdown_of footerAllowed =
     (if footerAllowed \<noteq> [] then [CHR 0x0A, CHR 0x0A] @ ''**'' @ footerAllowed @ ''**'' else [])"

definition baseDesc_of :: "string \<Rightarrow> string" where
  "baseDesc_of descRaw =
     (if valid (validateDescription descRaw) then slice0 descRaw (description LIMITS)
      else fallbackDescription)"

definition mergeDescription :: "string \<Rightarrow> string \<Rightarrow> string \<Rightarrow> string" where
  "mergeDescription baseDesc footerAllowed footerMarkdown =
     (if footerMarkdown \<noteq> [] then
        let totalLen = len baseDesc + len footerMarkdown in
        if totalLen \<le> description LIMITS then baseDesc @ footerMarkdown
        else
          let reserve = len footerMarkdown;
              allowedBase = description LIMITS - reserve in
          if allowedBase > 3 then
            let truncatedBase = trimEnd (slice0 baseDesc (allowedBase - 3))
            in truncatedBase @ ''...'' @ footerMarkdown
          else
            let allowedFooterContent = max 0 (description LIMITS - 4);
                shrunkFooter = trim (slice0 footerAllowed allowedFooterContent);
                footerMd = (if shrunkFooter \<noteq> []
                            then [CHR 0x0A, CHR 0x0A] @ ''**'' @ shrunkFooter @ ''**'' else [])
            in if len footerMd \<le> description LIMITS then
                 let d = (if len (trimStart footerMd) \<noteq> 0 then trimStart footerMd
                          else slice0 baseDesc (description LIMITS))
                 in if d = [] then slice0 baseDesc (description LIMITS) else d
               else slice0 baseDesc (description LIMITS)
      else slice0 baseDesc (description LIMITS))"

definition description_of :: "string \<Rightarrow> string \<Rightarrow> string" where
  "description_of descRaw footerRaw =
     (let footerAllowed = footerAllowed_of footerRaw;
          footerMarkdown = footerMarkdown_of footerAllowed;
          baseDesc = baseDesc_of descRaw
      in mergeDescription baseDesc footerAllowed footerMarkdown)"

definition imageUrl_of :: "(string \<Rightarrow> URL option) \<Rightarrow> string \<Rightarrow> string" where
  "imageUrl_of newURL imageRaw = (if valid (validateImageUrl newURL imageRaw) then imageRaw else [])"

definition imageType_of :: "string \<Rightarrow> string" where
  "imageType_of escapedImageUrl =
     (if escapedImageUrl \<noteq> [] then
        let lower = toLowerCase escapedImageUrl in
        if endsWith lower ''.png'' then ''image/png''
        else if endsWith lower ''.webp'' then ''image/webp''
        else if endsWith lower ''.gif'' then ''image/gif''
        else if endsWith lower ''.jpg'' \<or> endsWith lower ''.jpeg'' then ''image/jpeg''
        else ''image/*''
      else [])"

text \<open>
  The request is the part of \<open>request.nextUrl\<close> that \<open>GET\<close> reads. The response
  carries the status, the headers and, for the HTML document, the values that the
  template interpolates into its fixed text (\<open>imageType\<close> is the local the MIME-type
  hint is computed into, \<open>escapedImageType\<close> what the template writes).
\<close>

record NextUrl =
  origin :: string
  pathname :: string
  search :: string
  searchParams :: URLSearchParams

record Html =
  escapedTitle :: string
  escapedDescription :: string
  escapedFooter :: string
  escapedImageUrl :: string
  escapedUrl :: string
  hasImage :: bool
  imageType :: string
  escapedImageType :: string

record NextResponse =
  html :: Html
  status :: int
  headers :: "(string \<times> string) list"

definition GET :: "(string \<Rightarrow> URL option) \<Rightarrow> NextUrl \<Rightarrow> NextResponse" where
  "GET newURL nextUrl =
     (let params = getEmbedParams (searchParams nextUrl);
          titleRaw = rawParam (EmbedParams.title params);
          descRaw = rawParam (desc params);
          footerRaw = rawParam (EmbedParams.footer params);
          imageRaw = rawParam (image params);
          title = title_of titleRaw;
          footerAllowed = footerAllowed_of footerRaw;
          description = description_of descRaw footerRaw;
          imageUrl = imageUrl_of newURL imageRaw;
          escTitle = escapeHtml title;
          escDescription = escapeHtml description;
          escFooter = escapeHtml footerAllowed;
          escImageUrl = escapeHtml imageUrl;
          currentUrl = origin nextUrl @ pathname nextUrl @ search nextUrl;
          escUrl = escapeHtml currentUrl;
          imgType = imageType_of escImageUrl
      in \<lparr> html = \<lparr> escapedTitle = escTitle, escapedDescription = escDescription,
                      escapedFooter = escFooter, escapedImageUrl = escImageUrl,
                      escapedUrl = escUrl, hasImage = (escImageUrl \<noteq> []),
                      imageType = imgType, escapedImageType = escapeHtml imgType \<rparr>,
           status = 200,
           headers =
             [(''Content-Type'', ''text/html; charset=utf-8''),
              (''X-Content-Type-Options'', ''nosniff''),
              (''X-Frame-Options'', ''SAMEORIGIN''),
              (''Referrer-Policy'', ''no-referrer-when-downgrade''),
              (''Cache-Control'', ''public, max-age=300, stale-while-revalidate=86400'')] \<rparr>)"

section \<open>Lengths, slices and trimming\<close>

lemma len_nonneg: "0 \<le> len s"
  by (simp add: len_def)

lemma len_Nil_iff: "len s = 0 \<longleftrightarrow> s = []"
  by (simp add: len_def)

lemma len_append: "len (s @ t) = len s + len t"
  by (simp add: len_def)

lemma len_slice0_bound: "0 \<le> e \<Longrightarrow> len (slice0 s e) \<le> e"
  by (simp add: slice0_def len_def)

lemma slice0_id: "len s \<le> e \<Longrightarrow> slice0 s e = s"
  using len_nonneg [of s] by (simp add: slice0_def len_def)

lemma len_trimEnd_le: "len (trimEnd s) \<le> len s"
  using length_dropWhile_le [of isWhiteSpace "rev s"] by (simp add: trimEnd_def len_def)

lemma len_trimStart_le: "len (trimStart s) \<le> len s"
  by (simp add: len_def trimStart_def length_dropWhile_le)

lemma len_trim_le: "len (trim s) \<le> len s"
  using len_trimEnd_le [of "trimStart s"] len_trimStart_le [of s] by (simp add: trim_def)

lemma trim_Nil: "trim [] = []"
  by (simp add: trim_def trimEnd_def trimStart_def)

lemma LIMITS_simps:
  "Limits.title LIMITS = 200" "description LIMITS = 1000" "Limits.footer LIMITS = 200"
  by (simp_all add: LIMITS_def)

section \<open>The description budget\<close>

lemma len_footerAllowed_le: "len (footerAllowed_of footerRaw) \<le> 200"
  using len_slice0_bound [of 200 footerRaw]
  by (simp add: footerAllowed_of_def LIMITS_simps len_def)

lemma len_footerMarkdown:
  "len (footerMarkdown_of fa) = (if fa = [] then 0 else len fa + 6)"
  by (simp add: footerMarkdown_of_def len_def)

lemma len_footerMarkdown_le: "len (footerMarkdown_of (footerAllowed_of footerRaw)) \<le> 206"
  using len_footerAllowed_le [of footerRaw] by (simp add: len_footerMarkdown)

text \<open>
  With a footer markdown of at most 206 code units the merge never reaches its last
  branch, and is the three-way choice below.
\<close>

lemma mergeDescription_reachable:
  assumes "len footerMarkdown \<le> 206"
  shows "mergeDescription baseDesc footerAllowed footerMarkdown =
     (if footerMarkdown = [] then slice0 baseDesc (description LIMITS)
      else if len baseDesc + len footerMarkdown \<le> description LIMITS
      then baseDesc @ footerMarkdown
      else trimEnd (slice0 baseDesc (description LIMITS - len footerMarkdown - 3))
             @ ''...'' @ footerMarkdown)"
  using assms by (simp add: mergeDescription_def LIMITS_simps Let_def)

lemma len_mergeDescription_le:
  assumes "len footerMarkdown \<le> 206"
  shows "len (mergeDescription baseDesc footerAllowed footerMarkdown) \<le> 1000"
proof -
  let ?fm = footerMarkdown
  have a: "len (slice0 baseDesc 1000) \<le> 1000"
    by (rule len_slice0_bound) simp
  have "len (trimEnd (slice0 baseDesc (1000 - len ?fm - 3))) \<le> 1000 - len ?fm - 3"
    using len_trimEnd_le [of "slice0 baseDesc (1000 - len ?fm - 3)"]
      len_slice0_bound [of "1000 - len ?fm - 3" baseDesc] assms by linarith
  then have b: "len (trimEnd (slice0 baseDesc (1000 - len ?fm - 3)) @ ''...'' @ ?fm) \<le> 1000"
    by (simp add: len_def)
  show ?thesis
    using a b by (simp add: mergeDescription_reachable [OF assms] LIMITS_simps len_append)
qed

lemma GET_escapedDescription:
  "escapedDescription (html (GET newURL nextUrl))
     = escapeHtml (description_of (rawParam (desc (getEmbedParams (searchParams nextUrl))))
         (rawParam (EmbedParams.footer (getEmbedParams (searchParams nextUrl)))))"
  by (simp add: GET_def Let_def)

text \<open>
  C1. For every pair of trimmed description and footer parameters, and so for every
  choice of the raw query parameters, the description that \<open>GET\<close> composes has at most
  \<open>LIMITS.description\<close> = 1000 code units; og:description is this string, escaped.
  (Title and image do not enter the description.)
\<close>

theorem description_within_limit:
  "len (description_of descRaw footerRaw) \<le> description LIMITS \<and>
   description LIMITS = 1000 \<and>
   escapedDescription (html (GET newURL nextUrl))
     = escapeHtml (description_of (rawParam (desc (getEmbedParams (searchParams nextUrl))))
         (rawParam (EmbedParams.footer (getEmbedParams (searchParams nextUrl)))))"
  using len_mergeDescription_le [OF len_footerMarkdown_le [of footerRaw]]
  by (simp add: description_of_def LIMITS_simps Let_def GET_escapedDescription)

theorem description_within_limit_witness:
  "len (description_of ''A card'' ''The end'') \<le> 1000"
  using description_within_limit [where descRaw = "''A card''" and footerRaw = "''The end''"
      and newURL = "\<lambda>s. None"
      and nextUrl = "\<lparr> origin = [], pathname = ''/embed'', search = [], searchParams = [] \<rparr>"]
  by (simp add: LIMITS_simps)

text \<open>
  C9. With \<open>LIMITS.footer\<close> = 200 and \<open>LIMITS.description\<close> = 1000, a non-empty footer
  markdown has at most 206 code units, so \<open>allowedBase\<close> is at least 794 and the test
  \<open>allowedBase > 3\<close> never fails: for every input the composed description is the
  truncated base (no footer), the plain concatenation or the ellipsis truncation.
\<close>

theorem shrink_branch_unreachable:
  fixes descRaw footerRaw :: string
  defines "baseDesc \<equiv> baseDesc_of descRaw"
    and "footerMarkdown \<equiv> footerMarkdown_of (footerAllowed_of footerRaw)"
  defines "allowedBase \<equiv> description LIMITS - len footerMarkdown"
  shows "(footerMarkdown \<noteq> [] \<longrightarrow>
            len footerMarkdown \<le> 206 \<and> 794 \<le> allowedBase \<and> allowedBase > 3) \<and>
         description_of descRaw footerRaw =
           (if footerMarkdown = [] then slice0 baseDesc (description LIMITS)
            else if len baseDesc + len footerMarkdown \<le> description LIMITS
            then baseDesc @ footerMarkdown
            else trimEnd (slice0 baseDesc (allowedBase - 3)) @ ''...'' @ footerMarkdown)"
proof -
  have le: "len footerMarkdown \<le> 206"
    unfolding footerMarkdown_def by (rule len_footerMarkdown_le)
  then have "794 \<le> allowedBase \<and> allowedBase > 3"
    by (simp add: allowedBase_def LIMITS_simps)
  moreover have "description_of descRaw footerRaw =
      mergeDescription baseDesc (footerAllowed_of footerRaw) footerMarkdown"
    by (simp add: description_of_def baseDesc_def footerMarkdown_def Let_def)
  ultimately show ?thesis
    using le by (simp add: mergeDescription_reachable [OF le] allowedBase_def)
qed

theorem shrink_branch_unreachable_witness:
  "footerMarkdown_of (footerAllowed_of ''The end'') \<noteq> [] \<and>
   len (footerMarkdown_of (footerAllowed_of ''The end'')) \<le> 206 \<and>
   description LIMITS - len (footerMarkdown_of (footerAllowed_of ''The end'')) > 3"
  using shrink_branch_unreachable [where descRaw = "''A card''" and footerRaw = "''The end''"]
  by (simp add: footerMarkdown_of_def footerAllowed_of_def validateFooter_def LIMITS_simps
      len_def slice0_def)

section \<open>The merge scenario of 995 and 10 characters\<close>

lemma isWhiteSpace_A: "\<not> isWhiteSpace (CHR ''A'')"
  by (simp add: isWhiteSpace_def)

lemma trimStart_replicate: "\<not> isWhiteSpace c \<Longrightarrow> trimStart (replicate n c) = replicate n c"
  by (cases n) (simp_all add: trimStart_def)

lemma trimEnd_replicate:
  assumes "\<not> isWhiteSpace c"
  shows "trimEnd (replicate n c) = replicate n c"
proof -
  have "dropWhile isWhiteSpace (replicate n c) = replicate n c"
    using assms by (cases n) simp_all
  then show ?thesis by (simp add: trimEnd_def)
qed

lemma trim_replicate: "\<not> isWhiteSpace c \<Longrightarrow> trim (replicate n c) = replicate n c"
  by (simp add: trim_def trimStart_replicate trimEnd_replicate)

lemma len_replicate: "len (replicate n c) = int n"
  by (simp add: len_def)

lemma slice0_replicate: "0 \<le> e \<Longrightarrow> slice0 (replicate n c) e = replicate (min (nat e) n) c"
  by (auto simp: slice0_def len_def min_def nat_le_iff)

lemma footerMarkdown_B10:
  "footerMarkdown_of (footerAllowed_of ''BBBBBBBBBB'') = [CHR 0x0A, CHR 0x0A] @ ''**BBBBBBBBBB**''"
  by (simp add: footerMarkdown_of_def footerAllowed_of_def validateFooter_def LIMITS_simps
      slice0_id len_def)

lemma valid_A995: "valid (validateDescription (replicate 995 (CHR ''A'')))"
  by (simp add: validateDescription_def trim_replicate isWhiteSpace_A len_replicate LIMITS_simps)

lemma baseDesc_A995: "baseDesc_of (replicate 995 (CHR ''A'')) = replicate 995 (CHR ''A'')"
  by (simp add: baseDesc_of_def valid_A995 slice0_replicate LIMITS_simps)

lemma description_A995_B10:
  "description_of (replicate 995 (CHR ''A'')) ''BBBBBBBBBB''
     = replicate 981 (CHR ''A'') @ ''...'' @ [CHR 0x0A, CHR 0x0A] @ ''**BBBBBBBBBB**''"
  by (simp add: description_of_def footerMarkdown_B10 baseDesc_A995 Let_def mergeDescription_def
      LIMITS_simps len_replicate len_def slice0_replicate trimEnd_replicate isWhiteSpace_A)

text \<open>
  C2, as the code has it. For the description of 995 letters A (valid) and the footer of
  10 letters B, the footer markdown is two line feeds, two asterisks, the footer and two
  asterisks: 16 code units. The combined length is 1011 > 1000, \<open>allowedBase\<close> is
  1000 - 16 = 984 > 3, the base is cut to 981 letters A, followed by the ellipsis and the
  whole footer markdown, and the result has exactly 1000 code units.
\<close>

theorem merge_scenario:
  "valid (validateDescription (replicate 995 (CHR ''A''))) \<and>
   footerMarkdown_of (footerAllowed_of ''BBBBBBBBBB'') = [CHR 0x0A, CHR 0x0A] @ ''**BBBBBBBBBB**'' \<and>
   len (footerMarkdown_of (footerAllowed_of ''BBBBBBBBBB'')) = 16 \<and>
   len (baseDesc_of (replicate 995 (CHR ''A'')))
     + len (footerMarkdown_of (footerAllowed_of ''BBBBBBBBBB'')) = 1011 \<and>
   description LIMITS - len (footerMarkdown_of (footerAllowed_of ''BBBBBBBBBB'')) = 984 \<and>
   description_of (replicate 995 (CHR ''A'')) ''BBBBBBBBBB''
     = replicate 981 (CHR ''A'') @ ''...'' @ footerMarkdown_of (footerAllowed_of ''BBBBBBBBBB'') \<and>
   len (description_of (replicate 995 (CHR ''A'')) ''BBBBBBBBBB'') = 1000"
  by (simp add: valid_A995 footerMarkdown_B10 baseDesc_A995 description_A995_B10 len_def
      LIMITS_simps)

theorem merge_scenario_witness:
  "len (description_of (replicate 995 (CHR ''A'')) ''BBBBBBBBBB'') = 1000"
  using merge_scenario by blast

text \<open>
  The figures of the claim as written (a footer markdown of 18 characters, a combined
  length of 1013, \<open>allowedBase\<close> = 982 and a base cut to 979 letters) do not hold.
\<close>

theorem merge_scenario_counterexample:
  "\<not> (len (footerMarkdown_of (footerAllowed_of ''BBBBBBBBBB'')) = 18 \<and>
      len (baseDesc_of (replicate 995 (CHR ''A'')))
        + len (footerMarkdown_of (footerAllowed_of ''BBBBBBBBBB'')) = 1013 \<and>
      description LIMITS - len (footerMarkdown_of (footerAllowed_of ''BBBBBBBBBB'')) = 982 \<and>
      description_of (replicate 995 (CHR ''A'')) ''BBBBBBBBBB''
        = replicate 979 (CHR ''A'') @ ''...'' @ footerMarkdown_of (footerAllowed_of ''BBBBBBBBBB'') \<and>
      len (description_of (replicate 995 (CHR ''A'')) ''BBBBBBBBBB'') = 1000)"
  by (simp add: footerMarkdown_B10 len_def)

section \<open>validateTitle\<close>

lemma digits_200: "digits 200 = ''200''"
  by code_simp

lemma numberToString_200: "numberToString 200 = ''200''"
  by (simp add: numberToString_def digits_200)

lemma isWhiteSpace_a: "\<not> isWhiteSpace (CHR ''a'')"
  by (simp add: isWhiteSpace_def)

text \<open>
  C5. \<open>validateTitle\<close> is invalid exactly when the trimmed title is empty or the title
  has more than \<open>LIMITS.title\<close> = 200 code units, with the messages of the two cases
  (the empty case first), and valid otherwise. The empty title and 201 letters a are
  invalid; 200 letters a are valid.
\<close>

theorem validateTitle_verdict:
  "(valid (validateTitle t) \<longleftrightarrow> \<not> (len (trim t) = 0 \<or> len t > Limits.title LIMITS)) \<and>
   Limits.title LIMITS = 200 \<and>
   (len (trim t) = 0 \<longrightarrow>
      validateTitle t = \<lparr> valid = False, error = Some ''Title is required'' \<rparr>) \<and>
   (len (trim t) \<noteq> 0 \<and> len t > 200 \<longrightarrow>
      validateTitle t
        = \<lparr> valid = False, error = Some ''Title must be 200 characters or less'' \<rparr>) \<and>
   (len (trim t) \<noteq> 0 \<and> len t \<le> 200 \<longrightarrow>
      validateTitle t = \<lparr> valid = True, error = None \<rparr>) \<and>
   \<not> valid (validateTitle []) \<and>
   \<not> valid (validateTitle (replicate 201 (CHR ''a''))) \<and>
   valid (validateTitle (replicate 200 (CHR ''a'')))"
proof -
  have e: "t = [] \<Longrightarrow> len (trim t) = 0" for t
    by (simp add: trim_Nil len_def)
  have "valid (validateTitle t) \<longleftrightarrow> \<not> (len (trim t) = 0 \<or> len t > Limits.title LIMITS)"
    using e [of t] by (auto simp: validateTitle_def)
  moreover have "len (trim t) = 0 \<longrightarrow>
      validateTitle t = \<lparr> valid = False, error = Some ''Title is required'' \<rparr>"
    by (simp add: validateTitle_def)
  moreover have "len (trim t) \<noteq> 0 \<and> len t > 200 \<longrightarrow>
      validateTitle t
        = \<lparr> valid = False, error = Some ''Title must be 200 characters or less'' \<rparr>"
    using e [of t] by (auto simp: validateTitle_def LIMITS_simps numberToString_200)
  moreover have "len (trim t) \<noteq> 0 \<and> len t \<le> 200 \<longrightarrow>
      validateTitle t = \<lparr> valid = True, error = None \<rparr>"
    using e [of t] by (auto simp: validateTitle_def LIMITS_simps)
  moreover have "\<not> valid (validateTitle [])"
    by (simp add: validateTitle_def)
  moreover have "\<not> valid (validateTitle (replicate 201 (CHR ''a'')))"
    by (simp add: validateTitle_def trim_replicate isWhiteSpace_a len_replicate LIMITS_simps)
  moreover have "valid (validateTitle (replicate 200 (CHR ''a'')))"
    by (simp add: validateTitle_def trim_replicate isWhiteSpace_a len_replicate LIMITS_simps)
  ultimately show ?thesis
    by (simp only: LIMITS_simps simp_thms)
qed

theorem validateTitle_verdict_witness:
  "len (trim ''  '') = 0 \<and>
   validateTitle ''  '' = \<lparr> valid = False, error = Some ''Title is required'' \<rparr> \<and>
   len (trim (replicate 201 (CHR ''a''))) \<noteq> 0 \<and> len (replicate 201 (CHR ''a'')) > 200 \<and>
   validateTitle (replicate 201 (CHR ''a''))
     = \<lparr> valid = False, error = Some ''Title must be 200 characters or less'' \<rparr> \<and>
   len (trim ''Hi'') \<noteq> 0 \<and> len ''Hi'' \<le> 200 \<and>
   validateTitle ''Hi'' = \<lparr> valid = True, error = None \<rparr>"
proof -
  have a: "len (trim ''  '') = 0" "len (trim ''Hi'') \<noteq> 0" "len ''Hi'' \<le> 200"
    by (simp_all add: trim_def trimStart_def trimEnd_def isWhiteSpace_def len_def)
  have b: "len (trim (replicate 201 (CHR ''a''))) \<noteq> 0" "len (replicate 201 (CHR ''a'')) > 200"
    by (simp_all add: trim_replicate isWhiteSpace_a len_replicate)
  show ?thesis
    using a b validateTitle_verdict [of "''  ''"] validateTitle_verdict [of "''Hi''"]
      validateTitle_verdict [of "replicate 201 (CHR ''a'')"]
    by blast
qed

section \<open>validateImageUrl\<close>

text \<open>
  C4. \<open>validateImageUrl\<close> is valid on an empty or whitespace-only string. On any other
  string it is invalid with the format message exactly when the URL parser fails,
  invalid with the HTTPS message exactly when the parsed URL has a protocol other than
  \<open>https:\<close>, and valid exactly when the parsed URL has the protocol \<open>https:\<close>; the
  hostname plays no part, and a hostname containing \<open>localhost\<close> is accepted.
\<close>

theorem validateImageUrl_verdict:
  "(len (trim s) = 0 \<longrightarrow> validateImageUrl newURL s = \<lparr> valid = True, error = None \<rparr>) \<and>
   (len (trim s) \<noteq> 0 \<longrightarrow>
      (validateImageUrl newURL s = \<lparr> valid = False, error = Some ''Invalid URL format'' \<rparr>
         \<longleftrightarrow> newURL s = None) \<and>
      (validateImageUrl newURL s
           = \<lparr> valid = False, error = Some ''Image URL must be HTTPS only'' \<rparr>
         \<longleftrightarrow> (\<exists>url. newURL s = Some url \<and> protocol url \<noteq> ''https:'')) \<and>
      (validateImageUrl newURL s = \<lparr> valid = True, error = None \<rparr>
         \<longleftrightarrow> (\<exists>url. newURL s = Some url \<and> protocol url = ''https:'')) \<and>
      (\<forall>url. newURL s = Some url \<and> protocol url = ''https:''
             \<and> includes_str (hostname url) ''localhost''
         \<longrightarrow> valid (validateImageUrl newURL s)))"
proof (cases "len (trim s) = 0")
  case True
  then show ?thesis by (simp add: validateImageUrl_def)
next
  case False
  then have "s \<noteq> []" by (auto simp: trim_Nil len_def)
  with False show ?thesis
    by (cases "newURL s") (auto simp: validateImageUrl_def)
qed

text \<open>
  The witness runs the four cases with a parser that knows three strings: an HTTPS URL
  on localhost, an HTTP URL, and a string that is no URL.
\<close>

theorem validateImageUrl_verdict_witness:
  "validateImageUrl
     (\<lambda>s. if s = ''https://localhost/x.png''
          then Some \<lparr> protocol = ''https:'', hostname = ''localhost'' \<rparr>
          else if s = ''http://example.com/x.png''
          then Some \<lparr> protocol = ''http:'', hostname = ''example.com'' \<rparr>
          else None)
     ''https://localhost/x.png'' = \<lparr> valid = True, error = None \<rparr> \<and>
   validateImageUrl
     (\<lambda>s. if s = ''https://localhost/x.png''
          then Some \<lparr> protocol = ''https:'', hostname = ''localhost'' \<rparr>
          else if s = ''http://example.com/x.png''
          then Some \<lparr> protocol = ''http:'', hostname = ''example.com'' \<rparr>
          else None)
     ''http://example.com/x.png''
       = \<lparr> valid = False, error = Some ''Image URL must be HTTPS only'' \<rparr> \<and>
   validateImageUrl
     (\<lambda>s. if s = ''https://localhost/x.png''
          then Some \<lparr> protocol = ''https:'', hostname = ''localhost'' \<rparr>
          else if s = ''http://example.com/x.png''
          then Some \<lparr> protocol = ''http:'', hostname = ''example.com'' \<rparr>
          else None)
     ''not a url'' = \<lparr> valid = False, error = Some ''Invalid URL format'' \<rparr> \<and>
   validateImageUrl
     (\<lambda>s. if s = ''https://localhost/x.png''
          then Some \<lparr> protocol = ''https:'', hostname = ''localhost'' \<rparr>
          else if s = ''http://example.com/x.png''
          then Some \<lparr> protocol = ''http:'', hostname = ''example.com'' \<rparr>
          else None)
     ''  '' = \<lparr> valid = True, error = None \<rparr> \<and>
   includes_str ''localhost'' ''localhost''"
proof -
  let ?P = "\<lambda>s. if s = ''https://localhost/x.png''
          then Some \<lparr> protocol = ''https:'', hostname = ''localhost'' \<rparr>
          else if s = ''http://example.com/x.png''
          then Some \<lparr> protocol = ''http:'', hostname = ''example.com'' \<rparr>
          else None"
  have t: "len (trim ''https://localhost/x.png'') \<noteq> 0" "len (trim ''http://example.com/x.png'') \<noteq> 0"
    "len (trim ''not a url'') \<noteq> 0" "len (trim ''  '') = 0"
    by (simp_all add: trim_def trimStart_def trimEnd_def isWhiteSpace_def len_def)
  show ?thesis
    using t validateImageUrl_verdict [where newURL = ?P and s = "''https://localhost/x.png''"]
      validateImageUrl_verdict [where newURL = ?P and s = "''http://example.com/x.png''"]
      validateImageUrl_verdict [where newURL = ?P and s = "''not a url''"]
      validateImageUrl_verdict [where newURL = ?P and s = "''  ''"]
    by (simp add: includes_str_def)
qed

section \<open>escapeHtml\<close>

lemma escapeHtml_append: "escapeHtml (s @ t) = escapeHtml s @ escapeHtml t"
  by (simp add: escapeHtml_def he_escape_def)

lemma escapeHtml_Cons: "escapeHtml (c # s) = escapeChar c @ escapeHtml s"
  by (simp add: escapeHtml_def he_escape_def)

lemma escapeHtml_Nil: "escapeHtml [] = []"
  by (simp add: escapeHtml_def he_escape_def)

lemma escapeChar_not_Nil: "escapeChar c \<noteq> []"
  by (simp add: escapeChar_def)

lemma escapeHtml_eq_Nil: "escapeHtml s = [] \<longleftrightarrow> s = []"
  by (cases s) (simp_all add: escapeHtml_Nil escapeHtml_Cons escapeChar_not_Nil)

lemma sublist_escapeHtml: "sublist x d \<Longrightarrow> sublist (escapeHtml x) (escapeHtml d)"
  unfolding sublist_def by (metis escapeHtml_append)

lemma escape_script_literal: "escapeHtml ''<script>'' = ''&lt;script&gt;''"
  by (simp add: escapeHtml_Cons escapeHtml_Nil escapeChar_def)

lemma escape_bold_literal: "escapeHtml ''**bold**'' = ''**bold**''"
  by (simp add: escapeHtml_Cons escapeHtml_Nil escapeChar_def)

lemma filter_star_escapeChar:
  "filter (\<lambda>x. x = CHR ''*'') (escapeChar c) = filter (\<lambda>x. x = CHR ''*'') [c]"
  by (simp add: escapeChar_def)

lemma filter_star_escapeHtml:
  "filter (\<lambda>x. x = CHR ''*'') (escapeHtml d) = filter (\<lambda>x. x = CHR ''*'') d"
  by (induction d) (simp_all add: escapeHtml_Cons escapeHtml_Nil filter_star_escapeChar)

lemma no_angle_escapeChar: "CHR ''<'' \<notin> set (escapeChar c) \<and> CHR ''>'' \<notin> set (escapeChar c)"
  by (simp add: escapeChar_def)

lemma no_angle_escapeHtml: "CHR ''<'' \<notin> set (escapeHtml d) \<and> CHR ''>'' \<notin> set (escapeHtml d)"
  using no_angle_escapeChar by (induction d) (simp_all add: escapeHtml_Cons escapeHtml_Nil)

text \<open>
  C3. The escaper that \<open>GET\<close> applies to the composed description turns every
  occurrence of \<open><script>\<close> into \<open>&lt;script&gt;\<close> and keeps \<open>**bold**\<close> as it is: the
  asterisks of the output are those of the input, and the output has no angle bracket at
  all, so no markup is made of them.
\<close>

theorem escapeHtml_script_and_asterisks:
  "escapedDescription (html (GET newURL nextUrl))
     = escapeHtml (description_of (rawParam (desc (getEmbedParams (searchParams nextUrl))))
         (rawParam (EmbedParams.footer (getEmbedParams (searchParams nextUrl))))) \<and>
   (sublist ''<script>'' d \<longrightarrow> sublist ''&lt;script&gt;'' (escapeHtml d)) \<and>
   (sublist ''**bold**'' d \<longrightarrow> sublist ''**bold**'' (escapeHtml d)) \<and>
   filter (\<lambda>c. c = CHR ''*'') (escapeHtml d) = filter (\<lambda>c. c = CHR ''*'') d \<and>
   CHR ''<'' \<notin> set (escapeHtml d) \<and> CHR ''>'' \<notin> set (escapeHtml d) \<and>
   escapeHtml ''<script>'' = ''&lt;script&gt;'' \<and> escapeHtml ''**bold**'' = ''**bold**''"
proof -
  have "sublist ''<script>'' d \<longrightarrow> sublist ''&lt;script&gt;'' (escapeHtml d)"
    using sublist_escapeHtml [of "''<script>''" d] by (simp only: escape_script_literal) blast
  moreover have "sublist ''**bold**'' d \<longrightarrow> sublist ''**bold**'' (escapeHtml d)"
    using sublist_escapeHtml [of "''**bold**''" d] by (simp only: escape_bold_literal) blast
  ultimately show ?thesis
    using no_angle_escapeHtml [of d]
    by (simp only: GET_escapedDescription filter_star_escapeHtml escape_script_literal
        escape_bold_literal simp_thms)
qed

theorem escapeHtml_script_and_asterisks_witness:
  "sublist ''<script>'' ''a <script> in **bold**'' \<and>
   sublist ''&lt;script&gt;'' (escapeHtml ''a <script> in **bold**'') \<and>
   sublist ''**bold**'' ''a <script> in **bold**'' \<and>
   sublist ''**bold**'' (escapeHtml ''a <script> in **bold**'') \<and>
   escapedDescription (html (GET (\<lambda>s. None)
       \<lparr> origin = ''https://example.com'', pathname = ''/embed'', search = ''?desc=a'',
         searchParams = [(''desc'', ''a <script> in **bold**'')] \<rparr>))
     = ''a &lt;script&gt; in **bold**''"
proof -
  have a: "sublist ''<script>'' ''a <script> in **bold**''"
    using sublist_appendI [of "''<script>''" "''a ''" "'' in **bold**''"] by simp
  have b: "sublist ''**bold**'' ''a <script> in **bold**''"
    using sublist_appendI [of "''**bold**''" "''a <script> in ''" "[]"] by simp
  have c: "escapedDescription (html (GET (\<lambda>s. None)
       \<lparr> origin = ''https://example.com'', pathname = ''/embed'', search = ''?desc=a'',
         searchParams = [(''desc'', ''a <script> in **bold**'')] \<rparr>))
     = ''a &lt;script&gt; in **bold**''"
    by code_simp
  show ?thesis
    using a b c escapeHtml_script_and_asterisks [where d = "''a <script> in **bold**''"]
    by blast
qed

section \<open>The MIME-type hint\<close>

text \<open>
  \<open>GET\<close> tests the suffix on the escaped image URL. The entities that the escaper
  writes end in a semicolon, and the suffixes tested have neither a semicolon nor an
  escaped character, so the test on the escaped URL is the test on the URL itself.
\<close>

lemma escapeChar_cases:
  "(escapeChar c = [c] \<and> c \<notin> {CHR 0x22, CHR ''&'', CHR 0x27, CHR ''<'', CHR ''>'', CHR 0x60}) \<or>
   (\<exists>e. map lowerChar (escapeChar c) = e @ '';'' \<and> lowerChar c = c \<and>
        c \<in> {CHR 0x22, CHR ''&'', CHR 0x27, CHR ''<'', CHR ''>'', CHR 0x60})"
  by (simp add: escapeChar_def lowerChar_def)

lemma suffix_lower_escapeHtml:
  "set suf \<inter> {CHR 0x22, CHR ''&'', CHR 0x27, CHR ''<'', CHR ''>'', CHR 0x60, CHR '';''} = {} \<Longrightarrow>
   suffix suf (toLowerCase (escapeHtml u)) \<longleftrightarrow> suffix suf (toLowerCase u)"
proof (induction u arbitrary: suf rule: rev_induct)
  case Nil
  then show ?case by (simp add: toLowerCase_def escapeHtml_Nil)
next
  case (snoc c u)
  show ?case
  proof (cases suf rule: rev_cases)
    case Nil
    then show ?thesis by simp
  next
    case (snoc suf' z)
    with snoc.prems
    have pz: "z \<notin> {CHR 0x22, CHR ''&'', CHR 0x27, CHR ''<'', CHR ''>'', CHR 0x60, CHR '';''}"
      and ps: "set suf' \<inter> {CHR 0x22, CHR ''&'', CHR 0x27, CHR ''<'', CHR ''>'', CHR 0x60, CHR '';''} = {}"
      by auto
    have app: "toLowerCase (escapeHtml (u @ [c]))
        = toLowerCase (escapeHtml u) @ map lowerChar (escapeChar c)"
      by (simp add: toLowerCase_def escapeHtml_append escapeHtml_Cons escapeHtml_Nil)
    have low: "toLowerCase (u @ [c]) = toLowerCase u @ [lowerChar c]"
      by (simp add: toLowerCase_def)
    from escapeChar_cases [of c] show ?thesis
    proof
      assume "escapeChar c = [c] \<and> c \<notin> {CHR 0x22, CHR ''&'', CHR 0x27, CHR ''<'', CHR ''>'', CHR 0x60}"
      then have "escapeChar c = [c]" by simp
      then show ?thesis
        using snoc.IH [OF ps] by (simp add: app low snoc)
    next
      assume "\<exists>e. map lowerChar (escapeChar c) = e @ '';'' \<and> lowerChar c = c \<and>
        c \<in> {CHR 0x22, CHR ''&'', CHR 0x27, CHR ''<'', CHR ''>'', CHR 0x60}"
      then obtain e where e: "map lowerChar (escapeChar c) = e @ '';''" and lc: "lowerChar c = c"
        and np: "c \<in> {CHR 0x22, CHR ''&'', CHR 0x27, CHR ''<'', CHR ''>'', CHR 0x60}" by blast
      have z1: "z \<noteq> CHR '';''" using pz by simp
      have z2: "z \<noteq> c" using pz np by auto
      have "\<not> suffix (suf' @ [z]) ((toLowerCase (escapeHtml u) @ e) @ '';'')"
        using z1 by (simp only: snoc_suffix_snoc) simp
      moreover have "\<not> suffix (suf' @ [z]) (toLowerCase u @ [c])"
        using z2 by simp
      ultimately show ?thesis
        by (simp add: app low snoc e lc)
    qed
  qed
qed

lemma endsWith_lower_escapeHtml:
  "set suf \<inter> {CHR 0x22, CHR ''&'', CHR 0x27, CHR ''<'', CHR ''>'', CHR 0x60, CHR '';''} = {} \<Longrightarrow>
   endsWith (toLowerCase (escapeHtml u)) suf = endsWith (toLowerCase u) suf"
  by (simp add: endsWith_def suffix_lower_escapeHtml)

lemma imageType_of_escapeHtml:
  assumes "u \<noteq> []"
  shows "imageType_of (escapeHtml u) =
     (if endsWith (toLowerCase u) ''.png'' then ''image/png''
      else if endsWith (toLowerCase u) ''.webp'' then ''image/webp''
      else if endsWith (toLowerCase u) ''.gif'' then ''image/gif''
      else if endsWith (toLowerCase u) ''.jpg'' \<or> endsWith (toLowerCase u) ''.jpeg''
      then ''image/jpeg''
      else ''image/*'')"
proof -
  have p: "endsWith (toLowerCase (escapeHtml u)) ''.png'' = endsWith (toLowerCase u) ''.png''"
    by (rule endsWith_lower_escapeHtml) simp
  have w: "endsWith (toLowerCase (escapeHtml u)) ''.webp'' = endsWith (toLowerCase u) ''.webp''"
    by (rule endsWith_lower_escapeHtml) simp
  have g: "endsWith (toLowerCase (escapeHtml u)) ''.gif'' = endsWith (toLowerCase u) ''.gif''"
    by (rule endsWith_lower_escapeHtml) simp
  have j: "endsWith (toLowerCase (escapeHtml u)) ''.jpg'' = endsWith (toLowerCase u) ''.jpg''"
    by (rule endsWith_lower_escapeHtml) simp
  have k: "endsWith (toLowerCase (escapeHtml u)) ''.jpeg'' = endsWith (toLowerCase u) ''.jpeg''"
    by (rule endsWith_lower_escapeHtml) simp
  show ?thesis
    using assms
    by (simp only: imageType_of_def Let_def p w g j k escapeHtml_eq_Nil if_False if_True simp_thms)
qed

lemma GET_imageType:
  "imageType (html (GET newURL nextUrl))
     = imageType_of (escapeHtml
         (imageUrl_of newURL (rawParam (image (getEmbedParams (searchParams nextUrl))))))"
  by (simp add: GET_def Let_def)

lemma endsWith_upper_webp:
  assumes "endsWith u ''.WEBP''"
  shows "endsWith (toLowerCase u) ''.webp'' \<and> \<not> endsWith (toLowerCase u) ''.png''"
proof -
  have "suffix (map lowerChar ''.WEBP'') (map lowerChar u)"
    using assms unfolding endsWith_def by (rule map_mono_suffix)
  moreover have "map lowerChar ''.WEBP'' = ''.webp''"
    by code_simp
  ultimately have a: "suffix ''.webp'' (toLowerCase u)" by (simp add: toLowerCase_def)
  then have "\<not> suffix ''.png'' (toLowerCase u)"
    by (auto simp: suffix_def)
  with a show ?thesis by (simp add: endsWith_def)
qed

text \<open>
  C6. When the trimmed image parameter is non-empty and validates, the MIME-type hint
  that \<open>GET\<close> computes depends only on the suffix of the lowercased URL: \<open>.png\<close> gives
  image/png, \<open>.webp\<close> image/webp, \<open>.gif\<close> image/gif, \<open>.jpg\<close> or \<open>.jpeg\<close> image/jpeg, and
  anything else image/*. In particular a URL that ends in \<open>.WEBP\<close> gives image/webp.
\<close>

theorem imageType_from_suffix:
  fixes newURL :: "string \<Rightarrow> URL option" and nextUrl :: NextUrl
  defines "imageRaw \<equiv> rawParam (image (getEmbedParams (searchParams nextUrl)))"
  assumes "imageRaw \<noteq> []" and "valid (validateImageUrl newURL imageRaw)"
  shows "imageType (html (GET newURL nextUrl)) =
           (if endsWith (toLowerCase imageRaw) ''.png'' then ''image/png''
            else if endsWith (toLowerCase imageRaw) ''.webp'' then ''image/webp''
            else if endsWith (toLowerCase imageRaw) ''.gif'' then ''image/gif''
            else if endsWith (toLowerCase imageRaw) ''.jpg'' \<or> endsWith (toLowerCase imageRaw) ''.jpeg''
            then ''image/jpeg''
            else ''image/*'') \<and>
         (endsWith imageRaw ''.WEBP'' \<longrightarrow> imageType (html (GET newURL nextUrl)) = ''image/webp'')"
proof -
  have "imageUrl_of newURL imageRaw = imageRaw"
    using assms(3) by (simp add: imageUrl_of_def)
  then have t: "imageType (html (GET newURL nextUrl)) = imageType_of (escapeHtml imageRaw)"
    by (simp add: GET_imageType imageRaw_def)
  show ?thesis
    using endsWith_upper_webp [of imageRaw]
    by (auto simp add: t imageType_of_escapeHtml [OF assms(2)])
qed

theorem imageType_from_suffix_witness:
  "rawParam (image (getEmbedParams [(''image'', '' https://example.com/card.WEBP'')])) \<noteq> [] \<and>
   endsWith (rawParam (image (getEmbedParams [(''image'', '' https://example.com/card.WEBP'')])))
     ''.WEBP'' \<and>
   imageType (html (GET (\<lambda>s. Some \<lparr> protocol = ''https:'', hostname = ''example.com'' \<rparr>)
       \<lparr> origin = ''https://example.com'', pathname = ''/embed'', search = ''?image=x'',
         searchParams = [(''image'', '' https://example.com/card.WEBP'')] \<rparr>)) = ''image/webp''"
proof -
  let ?P = "\<lambda>s::string. Some \<lparr> protocol = ''https:'', hostname = ''example.com'' \<rparr>"
  let ?u = "\<lparr> origin = ''https://example.com'', pathname = ''/embed'', search = ''?image=x'',
         searchParams = [(''image'', '' https://example.com/card.WEBP'')] \<rparr>"
  have r: "rawParam (image (getEmbedParams [(''image'', '' https://example.com/card.WEBP'')]))
      = ''https://example.com/card.WEBP''"
    by code_simp
  have n: "rawParam (image (getEmbedParams (searchParams ?u))) \<noteq> []"
    by (simp add: r)
  have v: "valid (validateImageUrl ?P (rawParam (image (getEmbedParams (searchParams ?u)))))"
    by (simp add: r validateImageUrl_def trim_def trimStart_def trimEnd_def isWhiteSpace_def
        len_def)
  have e: "endsWith (rawParam (image (getEmbedParams (searchParams ?u)))) ''.WEBP''"
    by (simp add: r endsWith_def suffix_def)
  have "endsWith (rawParam (image (getEmbedParams (searchParams ?u)))) ''.WEBP''
      \<longrightarrow> imageType (html (GET ?P ?u)) = ''image/webp''"
    using imageType_from_suffix [where newURL = ?P and nextUrl = ?u, OF n v] by (rule conjunct2)
  with e have "imageType (html (GET ?P ?u)) = ''image/webp''"
    by blast
  with n e show ?thesis by simp
qed

section \<open>The response of GET\<close>

lemma escapeHtml_fallbackTitle: "escapeHtml fallbackTitle = ''Untitled Card''"
  by (simp add: fallbackTitle_def escapeHtml_Cons escapeHtml_Nil escapeChar_def)

lemma escapeHtml_fallbackDescription:
  "escapeHtml fallbackDescription = ''A shareable embed card created with Dynamic Embed Generator''"
  by (simp add: fallbackDescription_def escapeHtml_Cons escapeHtml_Nil escapeChar_def)

lemma len_fallbackDescription: "len fallbackDescription = 59"
  by (simp add: fallbackDescription_def len_def)

lemma description_of_invalid:
  assumes "\<not> valid (validateDescription descRaw)"
  shows "description_of descRaw footerRaw
    = fallbackDescription @ footerMarkdown_of (footerAllowed_of footerRaw)"
proof -
  let ?fm = "footerMarkdown_of (footerAllowed_of footerRaw)"
  have b: "baseDesc_of descRaw = fallbackDescription"
    using assms by (simp add: baseDesc_of_def)
  have le: "len ?fm \<le> 206"
    by (rule len_footerMarkdown_le)
  have "mergeDescription fallbackDescription (footerAllowed_of footerRaw) ?fm
      = fallbackDescription @ ?fm"
    using le
    by (simp add: mergeDescription_reachable [OF le] LIMITS_simps len_fallbackDescription slice0_id)
  then show ?thesis
    by (simp add: description_of_def Let_def b)
qed

text \<open>
  C7. \<open>GET\<close> is a total function of the request and of the URL parser, failing or not,
  and its response always has status 200. A title that does not validate is replaced by
  \<open>Untitled Card\<close>; a description that does not validate is replaced by the fallback
  sentence (followed by the footer markdown, when there is a footer); an image URL that
  does not validate, malformed or not HTTPS, leaves the page without image.
\<close>

theorem GET_always_200:
  fixes newURL :: "string \<Rightarrow> URL option" and nextUrl :: NextUrl
  defines "params \<equiv> getEmbedParams (searchParams nextUrl)"
  defines "titleRaw \<equiv> rawParam (EmbedParams.title params)"
    and "descRaw \<equiv> rawParam (desc params)"
    and "footerRaw \<equiv> rawParam (EmbedParams.footer params)"
    and "imageRaw \<equiv> rawParam (image params)"
  shows "status (GET newURL nextUrl) = 200 \<and>
         (\<not> valid (validateTitle titleRaw) \<longrightarrow>
            escapedTitle (html (GET newURL nextUrl)) = ''Untitled Card'') \<and>
         (\<not> valid (validateDescription descRaw) \<longrightarrow>
            escapedDescription (html (GET newURL nextUrl))
              = ''A shareable embed card created with Dynamic Embed Generator''
                  @ escapeHtml (footerMarkdown_of (footerAllowed_of footerRaw))) \<and>
         (\<not> valid (validateImageUrl newURL imageRaw) \<longrightarrow>
            escapedImageUrl (html (GET newURL nextUrl)) = [] \<and>
            \<not> hasImage (html (GET newURL nextUrl)) \<and>
            imageType (html (GET newURL nextUrl)) = [])"
proof -
  have s: "status (GET newURL nextUrl) = 200"
    by (simp add: GET_def Let_def)
  have t: "\<not> valid (validateTitle titleRaw) \<longrightarrow>
      escapedTitle (html (GET newURL nextUrl)) = ''Untitled Card''"
    by (simp add: GET_def Let_def titleRaw_def params_def title_of_def escapeHtml_fallbackTitle)
  have d: "\<not> valid (validateDescription descRaw) \<longrightarrow>
      escapedDescription (html (GET newURL nextUrl))
        = ''A shareable embed card created with Dynamic Embed Generator''
            @ escapeHtml (footerMarkdown_of (footerAllowed_of footerRaw))"
    using description_of_invalid [of descRaw footerRaw]
    by (simp add: GET_escapedDescription descRaw_def footerRaw_def params_def escapeHtml_append
        escapeHtml_fallbackDescription)
  have i: "\<not> valid (validateImageUrl newURL imageRaw) \<longrightarrow>
      escapedImageUrl (html (GET newURL nextUrl)) = [] \<and>
      \<not> hasImage (html (GET newURL nextUrl)) \<and>
      imageType (html (GET newURL nextUrl)) = []"
    by (simp add: GET_def Let_def imageRaw_def params_def imageUrl_of_def escapeHtml_Nil
        imageType_of_def)
  from s t d i show ?thesis by blast
qed

theorem GET_always_200_witness:
  "\<not> valid (validateTitle (rawParam (EmbedParams.title (getEmbedParams [(''image'', ''nope'')])))) \<and>
   \<not> valid (validateDescription (rawParam (desc (getEmbedParams [(''image'', ''nope'')])))) \<and>
   \<not> valid (validateImageUrl (\<lambda>s. None) (rawParam (image (getEmbedParams [(''image'', ''nope'')])))) \<and>
   status (GET (\<lambda>s. None)
       \<lparr> origin = ''https://example.com'', pathname = ''/embed'', search = ''?image=nope'',
         searchParams = [(''image'', ''nope'')] \<rparr>) = 200 \<and>
   escapedTitle (html (GET (\<lambda>s. None)
       \<lparr> origin = ''https://example.com'', pathname = ''/embed'', search = ''?image=nope'',
         searchParams = [(''image'', ''nope'')] \<rparr>)) = ''Untitled Card'' \<and>
   \<not> hasImage (html (GET (\<lambda>s. None)
       \<lparr> origin = ''https://example.com'', pathname = ''/embed'', search = ''?image=nope'',
         searchParams = [(''image'', ''nope'')] \<rparr>))"
proof -
  let ?u = "\<lparr> origin = ''https://example.com'', pathname = ''/embed'', search = ''?image=nope'',
         searchParams = [(''image'', ''nope'')] \<rparr>"
  have a: "\<not> valid (validateTitle (rawParam (EmbedParams.title (getEmbedParams [(''image'', ''nope'')]))))"
    by code_simp
  have b: "\<not> valid (validateDescription (rawParam (desc (getEmbedParams [(''image'', ''nope'')]))))"
    by code_simp
  have c: "\<not> valid (validateImageUrl (\<lambda>s. None) (rawParam (image (getEmbedParams [(''image'', ''nope'')]))))"
    by code_simp
  have u: "searchParams ?u = [(''image'', ''nope'')]"
    by simp
  show ?thesis
    using a b c GET_always_200 [where newURL = "\<lambda>s. None" and nextUrl = ?u]
    unfolding u by blast
qed

section \<open>buildShareableUrl and getEmbedParams\<close>

lemma buildSearchParams_entries:
  "buildSearchParams params =
     (if truthy (EmbedParams.title params) then [(''title'', orEmpty (EmbedParams.title params))] else [])
     @ (if truthy (desc params) then [(''desc'', orEmpty (desc params))] else [])
     @ (if truthy (EmbedParams.footer params) then [(''footer'', orEmpty (EmbedParams.footer params))] else [])
     @ (if truthy (image params) then [(''image'', orEmpty (image params))] else [])"
  by (simp add: buildSearchParams_def setIfTruthy_def truthy_def orEmpty_def split: option.splits)

lemma buildShareableUrl_title_X:
  "buildShareableUrl \<lparr> EmbedParams.title = Some ''X'', desc = None, EmbedParams.footer = None,
     image = None \<rparr> = ''/embed?title=X''"
  by code_simp

text \<open>
  C8. \<open>buildShareableUrl\<close> is \<open>/embed?\<close> followed by the serialized search parameters,
  which hold exactly the truthy fields, in the order title, desc, footer, image, each
  with its value; a record with only the title X gives \<open>/embed?title=X\<close>.
  \<open>getEmbedParams\<close> gives title, desc and footer the value of the first parameter of
  that name, the empty string when there is none; image is undefined when the
  parameter is missing (or empty), never the empty string.
\<close>

theorem shareable_url_and_params:
  "buildShareableUrl \<lparr> EmbedParams.title = Some ''X'', desc = None, EmbedParams.footer = None,
     image = None \<rparr> = ''/embed?title=X'' \<and>
   buildShareableUrl params = ''/embed?'' @ sp_toString (buildSearchParams params) \<and>
   buildSearchParams params =
     (if truthy (EmbedParams.title params) then [(''title'', orEmpty (EmbedParams.title params))] else [])
     @ (if truthy (desc params) then [(''desc'', orEmpty (desc params))] else [])
     @ (if truthy (EmbedParams.footer params) then [(''footer'', orEmpty (EmbedParams.footer params))] else [])
     @ (if truthy (image params) then [(''image'', orEmpty (image params))] else []) \<and>
   EmbedParams.title (getEmbedParams sp)
     = Some (case sp_get sp ''title'' of None \<Rightarrow> [] | Some v \<Rightarrow> v) \<and>
   desc (getEmbedParams sp) = Some (case sp_get sp ''desc'' of None \<Rightarrow> [] | Some v \<Rightarrow> v) \<and>
   EmbedParams.footer (getEmbedParams sp)
     = Some (case sp_get sp ''footer'' of None \<Rightarrow> [] | Some v \<Rightarrow> v) \<and>
   (sp_get sp ''image'' = None \<longrightarrow> image (getEmbedParams sp) = None) \<and>
   (sp_get sp ''image'' = Some [] \<longrightarrow> image (getEmbedParams sp) = None) \<and>
   (sp_get sp ''image'' = Some w \<and> w \<noteq> [] \<longrightarrow> image (getEmbedParams sp) = Some w) \<and>
   image (getEmbedParams sp) \<noteq> Some []"
proof -
  have g: "EmbedParams.title (getEmbedParams sp)
      = Some (case sp_get sp ''title'' of None \<Rightarrow> [] | Some v \<Rightarrow> v) \<and>
    desc (getEmbedParams sp) = Some (case sp_get sp ''desc'' of None \<Rightarrow> [] | Some v \<Rightarrow> v) \<and>
    EmbedParams.footer (getEmbedParams sp)
      = Some (case sp_get sp ''footer'' of None \<Rightarrow> [] | Some v \<Rightarrow> v)"
    by (simp add: getEmbedParams_def orEmpty_def)
  have i: "(sp_get sp ''image'' = None \<longrightarrow> image (getEmbedParams sp) = None) \<and>
    (sp_get sp ''image'' = Some [] \<longrightarrow> image (getEmbedParams sp) = None) \<and>
    (sp_get sp ''image'' = Some w \<and> w \<noteq> [] \<longrightarrow> image (getEmbedParams sp) = Some w) \<and>
    image (getEmbedParams sp) \<noteq> Some []"
    by (simp add: getEmbedParams_def orUndefined_def split: option.splits)
  have b: "buildShareableUrl params = ''/embed?'' @ sp_toString (buildSearchParams params)"
    by (simp only: buildShareableUrl_def)
  from g i b buildShareableUrl_title_X buildSearchParams_entries [of params]
  show ?thesis by blast
qed

theorem shareable_url_and_params_witness:
  "sp_get [(''title'', ''T''), (''image'', ''https://example.com/a.png'')] ''image''
     = Some ''https://example.com/a.png'' \<and>
   image (getEmbedParams [(''title'', ''T''), (''image'', ''https://example.com/a.png'')])
     = Some ''https://example.com/a.png'' \<and>
   sp_get [(''title'', ''T'')] ''image'' = None \<and>
   image (getEmbedParams [(''title'', ''T'')]) = None \<and>
   desc (getEmbedParams [(''title'', ''T'')]) = Some [] \<and>
   sp_get [(''image'', [])] ''image'' = Some [] \<and>
   image (getEmbedParams [(''image'', [])]) = None \<and>
   buildSearchParams \<lparr> EmbedParams.title = Some ''T'', desc = Some [], EmbedParams.footer = None,
     image = Some ''https://example.com/a.png'' \<rparr>
     = [(''title'', ''T''), (''image'', ''https://example.com/a.png'')]"
proof -
  have a: "sp_get [(''title'', ''T''), (''image'', ''https://example.com/a.png'')] ''image''
      = Some ''https://example.com/a.png''"
    and b: "sp_get [(''title'', ''T'')] ''image'' = None"
    and c: "sp_get [(''title'', ''T'')] ''desc'' = None"
    and d: "sp_get [(''image'', [])] ''image'' = Some []"
    by simp_all
  have "image (getEmbedParams [(''title'', ''T''), (''image'', ''https://example.com/a.png'')])
      = Some ''https://example.com/a.png''"
    using a shareable_url_and_params
      [where sp = "[(''title'', ''T''), (''image'', ''https://example.com/a.png'')]"
        and w = "''https://example.com/a.png''"]
    by simp
  moreover have "image (getEmbedParams [(''title'', ''T'')]) = None
      \<and> desc (getEmbedParams [(''title'', ''T'')]) = Some []"
    using b c shareable_url_and_params [where sp = "[(''title'', ''T'')]"] by simp
  moreover have "image (getEmbedParams [(''image'', [])]) = None"
    using d shareable_url_and_params [where sp = "[(''image'', [])]"] by simp
  moreover have "buildSearchParams \<lparr> EmbedParams.title = Some ''T'', desc = Some [],
      EmbedParams.footer = None, image = Some ''https://example.com/a.png'' \<rparr>
     = [(''title'', ''T''), (''image'', ''https://example.com/a.png'')]"
    using shareable_url_and_params [where params = "\<lparr> EmbedParams.title = Some ''T'',
      desc = Some [], EmbedParams.footer = None, image = Some ''https://example.com/a.png'' \<rparr>"]
    by (simp add: truthy_def orEmpty_def)
  ultimately show ?thesis using a b d by simp
qed

text \<open>
  C10. When all four fields are falsy (absent or empty) no parameter is set, the
  serialized query string is empty, and \<open>buildShareableUrl\<close> returns \<open>/embed?\<close>, with
  the question mark, not \<open>/embed\<close>.
\<close>

theorem buildShareableUrl_all_falsy:
  assumes "\<not> truthy (EmbedParams.title params)" and "\<not> truthy (desc params)"
    and "\<not> truthy (EmbedParams.footer params)" and "\<not> truthy (image params)"
  shows "buildShareableUrl params = ''/embed?'' \<and> buildShareableUrl params \<noteq> ''/embed''"
  using assms by (simp add: buildShareableUrl_def buildSearchParams_entries)

theorem buildShareableUrl_all_falsy_witness:
  "\<not> truthy (Some []) \<and> \<not> truthy None \<and>
   buildShareableUrl \<lparr> EmbedParams.title = Some [], desc = None, EmbedParams.footer = Some [],
     image = None \<rparr> = ''/embed?''"
  using buildShareableUrl_all_falsy [where params = "\<lparr> EmbedParams.title = Some [], desc = None,
     EmbedParams.footer = Some [], image = None \<rparr>"]
  by (simp add: truthy_def)

end
